theory Spec2Isabelle
  imports Complex_Main
begin

section \<open>Python and numpy values\<close>

text \<open>
  The repository is Python on top of numpy. Numbers (\<open>int\<close>, \<open>float\<close>, numpy's
  \<open>float64\<close>) are idealised as the reals: rounding, overflow and the sign of zero are
  outside this development, and \<open>isinstance(x, (float, int))\<close> never tells the two
  apart. Two places where a float is not a real are kept: a product of floats that
  underflows to zero (\<open>float_mul\<close>), and the numbers numpy does not keep in a numeric
  dtype (\<open>np_matrix\<close>). A numpy \<open>matrix\<close> is the list of its rows. Every exception of the source is a
  value of \<open>error\<close>; a function that can raise returns \<open>error + 'a\<close>. The value
  \<open>NotModelled\<close> is no exception of Python: it marks an input this development does not
  follow any further. The \<open>assert\<close> statements of the source are taken as enabled (Python
  run without \<open>-O\<close>): a failed one raises \<open>AssertionError\<close>.
\<close>

type_synonym mat = "real list list"

datatype error =
    TypeError string
  | ValueError
  | AssertionError
  | IndexError
  | KeyError
  | LinAlgError
  | NotModelled

text \<open>
  \<open>numpy.matrix(rows)\<close> of a rectangular nested list of numbers. numpy keeps a Python
  \<open>int\<close> in an integer dtype only within 64 bits; a larger one makes it build a matrix of
  dtype \<open>object\<close>, whose arithmetic is Python's (a division by zero raises there). The
  model cannot tell an \<open>int\<close> from a \<open>float\<close>, so it follows no number of magnitude
  \<open>2^63\<close> or more into a matrix: every matrix of the model has dtype \<open>float64\<close> or
  \<open>int64\<close>.
\<close>

definition representable :: "real \<Rightarrow> bool" where
  "representable x = (\<bar>x\<bar> < 2 ^ 63)"

definition np_matrix :: "real list list \<Rightarrow> error + mat" where
  "np_matrix rows =
     (if list_all (list_all representable) rows then Inr rows else Inl NotModelled)"

text \<open>
  The product \<open>x * y\<close> of two Python numbers, as far as its being zero goes. A product
  of floats whose exact value is at most \<open>2^-1075\<close> in magnitude, half the smallest
  positive double, is rounded to zero (round to nearest, ties to even); any other product
  of non-zero floats is not zero, and its rounding is idealised away. A product of two
  non-zero \<open>int\<close>s is exact and at least 1 in magnitude.
\<close>

definition float_mul :: "real \<Rightarrow> real \<Rightarrow> real" where
  "float_mul x y = (if \<bar>x * y\<bar> \<le> 1 / 2 ^ 1075 then 0 else x * y)"

text \<open>\<open>numpy.identity(n)\<close>.\<close>

definition identity :: "nat \<Rightarrow> mat" where
  "identity n = map (\<lambda>(i, _). map (\<lambda>(j, _). if i = j then 1 else 0)
                       (enumerate 0 (replicate n ()))) (enumerate 0 (replicate n ()))"

text \<open>\<open>M.shape\<close>: rows and columns. A matrix without rows is not representable
  with its column count; \<open>numpy.asmatrix\<close> never builds one from a list.\<close>

definition shape :: "mat \<Rightarrow> nat \<times> nat" where
  "shape M = (length M, case M of [] \<Rightarrow> 0 | r # _ \<Rightarrow> length r)"

definition dot :: "real list \<Rightarrow> real list \<Rightarrow> real" where
  "dot r c = sum_list (map2 (*) r c)"

text \<open>\<open>A @ B\<close>: numpy raises \<open>ValueError\<close> when the inner dimensions differ.\<close>

definition matmul :: "mat \<Rightarrow> mat \<Rightarrow> error + mat" where
  "matmul A B =
     (if snd (shape A) \<noteq> fst (shape B) then Inl ValueError
      else Inr (map (\<lambda>r. map (dot r) (transpose B)) A))"

text \<open>The left operand of a chained \<open>@\<close> may already have raised.\<close>

definition then_matmul :: "error + mat \<Rightarrow> mat \<Rightarrow> error + mat" where
  "then_matmul a B = (case a of Inl e \<Rightarrow> Inl e | Inr A \<Rightarrow> matmul A B)"

text \<open>
  \<open>numpy.linalg.inv\<close>: the inverse of a square matrix, \<open>LinAlgError\<close> when the
  matrix is not square or is singular. Over the reals the inverse is the adjugate divided
  by the determinant (Laplace expansion along the first row).
\<close>

fun drop_nth :: "nat \<Rightarrow> 'a list \<Rightarrow> 'a list" where
  "drop_nth n [] = []"
| "drop_nth 0 (x # xs) = xs"
| "drop_nth (Suc n) (x # xs) = x # drop_nth n xs"

function det :: "mat \<Rightarrow> real" where
  "det [] = 1"
| "det (r # M) =
     sum_list (map (\<lambda>(j, a). (- 1) ^ j * a * det (map (drop_nth j) M)) (enumerate 0 r))"
  by pat_completeness auto
termination
  by (relation "measure length") auto

definition cofactor :: "mat \<Rightarrow> nat \<Rightarrow> nat \<Rightarrow> real" where
  "cofactor M i j = (- 1) ^ (i + j) * det (map (drop_nth j) (drop_nth i M))"

definition inv_matrix :: "mat \<Rightarrow> error + mat" where
  "inv_matrix M =
     (if \<not> list_all (\<lambda>r. length r = length M) M then Inl LinAlgError
      else if det M = 0 then Inl LinAlgError
      else Inr (map (\<lambda>(i, r). map (\<lambda>(j, _). cofactor M j i / det M) (enumerate 0 r))
                    (enumerate 0 M)))"

text \<open>
  \<open>math.isclose(a, b)\<close> with its defaults \<open>rel_tol = 1e-09\<close> and
  \<open>abs_tol = 0.0\<close>, as CPython computes it.
\<close>

definition isclose :: "real \<Rightarrow> real \<Rightarrow> bool" where
  "isclose a b =
     (if a = b then True
      else (let diff = \<bar>b - a\<bar>; rel_tol = 1 / 10 ^ 9; abs_tol = 0
            in diff \<le> \<bar>rel_tol * b\<bar> \<or> diff \<le> \<bar>rel_tol * a\<bar> \<or> diff \<le> abs_tol))"

text \<open>
  numpy's element-wise \<open>/\<close> on matrices of dtype \<open>float64\<close> never raises: a zero
  divisor gives \<open>inf\<close>, \<open>-inf\<close> or \<open>nan\<close> (and a warning). The three are one
  value here, since a real zero has no sign. (On dtype \<open>object\<close> the same \<open>/\<close> raises
  \<open>ZeroDivisionError\<close>; \<open>np_matrix\<close> keeps such matrices out of the model.)
\<close>

datatype quot = Fin real | NonFinite

definition np_divide :: "real \<Rightarrow> real \<Rightarrow> quot" where
  "np_divide x y = (if y = 0 then NonFinite else Fin (x / y))"

text \<open>\<open>math.radians\<close>.\<close>

definition radians :: "real \<Rightarrow> real" where
  "radians d = d * (pi / 180)"

subsection \<open>The parsed document\<close>

text \<open>
  What \<open>json.load\<close> returns. An object is the list of its items (keys distinct);
  strings are taken as ASCII.
\<close>

datatype json =
    JNull
  | JBool bool
  | JNum real
  | JStr string
  | JArr "json list"
  | JObj "(string \<times> json) list"

text \<open>\<open>d[k]\<close> for a string key and \<open>xs[i]\<close> for a non-negative index.\<close>

fun getitem_key :: "json \<Rightarrow> string \<Rightarrow> error + json" where
  "getitem_key (JObj kvs) k = (case map_of kvs k of None \<Rightarrow> Inl KeyError | Some v \<Rightarrow> Inr v)"
| "getitem_key (JArr xs) k = Inl (TypeError ''list indices must be integers'')"
| "getitem_key (JStr s) k = Inl (TypeError ''string indices must be integers'')"
| "getitem_key j k = Inl (TypeError ''object is not subscriptable'')"

fun getitem_idx :: "json \<Rightarrow> nat \<Rightarrow> error + json" where
  "getitem_idx (JArr xs) i = (if i < length xs then Inr (xs ! i) else Inl IndexError)"
| "getitem_idx (JStr s) i = (if i < length s then Inr (JStr [s ! i]) else Inl IndexError)"
| "getitem_idx (JObj kvs) i = Inl KeyError"
| "getitem_idx j i = Inl (TypeError ''object is not subscriptable'')"

text \<open>What a \<open>for\<close> loop over a value visits.\<close>

fun iter_json :: "json \<Rightarrow> error + json list" where
  "iter_json (JArr xs) = Inr xs"
| "iter_json (JStr s) = Inr (map (\<lambda>c. JStr [c]) s)"
| "iter_json (JObj kvs) = Inr (map (\<lambda>kv. JStr (fst kv)) kvs)"
| "iter_json j = Inl (TypeError ''object is not iterable'')"

text \<open>The numbers of Python among the JSON values (\<open>bool\<close> is a subclass of \<open>int\<close>).\<close>

fun as_number :: "json \<Rightarrow> real option" where
  "as_number (JNum x) = Some x"
| "as_number (JBool b) = Some (if b then 1 else 0)"
| "as_number j = None"

section \<open>Point\<close>

text \<open>
  \<open>packages/point.py\<close> is not among the sources. A point is its three components.
\<close>

datatype point = Point real real real

text \<open>
  Modelled from the spec: the constructor of the missing class \<open>Point\<close>, called as
  \<open>Point(*args)\<close>. The spec: "constructible from a scalar (broadcast to all 3), a
  3-element ordered sequence, or another Point", and "rejecting non-numeric, non-3-length
  inputs (fails with TypeKind error)".
\<close>

definition Point_new :: "real list \<Rightarrow> error + point" where
  "Point_new args =
     (case args of
        [x, y, z] \<Rightarrow> Inr (Point x y z)
      | [s] \<Rightarrow> Inr (Point s s s)
      | _ \<Rightarrow> Inl (TypeError ''Point''))"

text \<open>
  Modelled from the spec: iterating a \<open>Point\<close> (\<open>Point(*scale)\<close> and
  \<open>x, y, z = shift\<close> in the source) visits its three components.
\<close>

fun point_iter :: "point \<Rightarrow> real list" where
  "point_iter (Point x y z) = [x, y, z]"

text \<open>
  Modelled from the spec: \<open>+=\<close> and \<open>*=\<close> of the missing class \<open>Point\<close> with a
  three-component operand: "supports component-wise add and scalar/vector multiply".
\<close>

fun point_iadd :: "point \<Rightarrow> real \<times> real \<times> real \<Rightarrow> point" where
  "point_iadd (Point x y z) (a, b, c) = Point (x + a) (y + b) (z + c)"

fun point_imul :: "point \<Rightarrow> real \<times> real \<times> real \<Rightarrow> point" where
  "point_imul (Point x y z) (a, b, c) = Point (float_mul x a) (float_mul y b) (float_mul z c)"

section \<open>Mesh\<close>

text \<open>
  An argument of type \<open>Union[Point, float, int, list, tuple]\<close>: a number, a list or
  tuple of numbers, or a \<open>Point\<close>.
\<close>

datatype pyarg = Num real | Lst "real list" | Tup "real list" | Pnt point

text \<open>What iterating the argument visits; a number is not iterable.\<close>

fun iter :: "pyarg \<Rightarrow> error + real list" where
  "iter (Num s) = Inl (TypeError ''object is not iterable'')"
| "iter (Lst xs) = Inr xs"
| "iter (Tup xs) = Inr xs"
| "iter (Pnt p) = Inr (point_iter p)"

text \<open>\<open>x, y, z = arg\<close>.\<close>

definition unpack3 :: "pyarg \<Rightarrow> error + real \<times> real \<times> real" where
  "unpack3 arg =
     (case iter arg of
        Inl e \<Rightarrow> Inl e
      | Inr [x, y, z] \<Rightarrow> Inr (x, y, z)
      | Inr _ \<Rightarrow> Inl ValueError)"

text \<open>
  The object. \<open>camera\<close> and \<open>focal\<close> are assigned once in \<open>__init__\<close> to fixed
  matrices and never again: they are constants below. \<open>vertices2D\<close> is the attribute
  \<open>_2DVertices\<close>, \<open>show_flag\<close> is \<open>show\<close>.
\<close>

record mesh =
  vertices :: mat
  edges :: json
  center :: point
  angle :: point
  scale :: point
  transform_matrix :: mat
  transform_matrix_backup :: mat
  show_flag :: bool
  color :: string
  vertices2D :: "quot list list"

definition camera :: mat where
  "camera = (let temp = sqrt 2 / 2 in
     [[ temp, temp, 0, 1],
      [-temp, temp, 0, 0],
      [    0,    0, 1, 0],
      [    0,    0, 0, 1]])"

definition focal :: mat where
  "focal =
     [[5, 0, 0, 0],
      [0, 5, 0, 0],
      [0, 0, 1, 0]]"

subsection \<open>The setters\<close>

text \<open>\<open>numpy.asmatrix\<close> of a nested list of numbers: \<open>[]\<close> is the 1\<times>0 matrix,
  rows of different lengths are refused.\<close>

definition asmatrix :: "real list list \<Rightarrow> error + mat" where
  "asmatrix xs =
     (if xs = [] then Inr [[]]
      else if \<not> list_all (\<lambda>r. length r = length (hd xs)) xs then Inl ValueError
      else np_matrix xs)"

definition vertices_setter :: "real list list \<Rightarrow> error + mat" where
  "vertices_setter values0 =
     (case asmatrix values0 of
        Inl e \<Rightarrow> Inl e
      | Inr v0 \<Rightarrow>
         (case (if fst (shape v0) \<noteq> 4
                then (if snd (shape v0) = 4 then Inr (transpose v0) else Inl AssertionError)
                else Inr v0) of
            Inl e \<Rightarrow> Inl e
          | Inr v1 \<Rightarrow>
             (if \<not> list_all (\<lambda>x. x = 1) (v1 ! 3)
              then (if snd (shape v1) = 4 then Inr (transpose v1) else Inl AssertionError)
              else Inr v1)))"

fun center_setter :: "pyarg \<Rightarrow> error + point" where
  "center_setter (Pnt p) = Inr p"
| "center_setter (Num c) = Point_new [c, c, c]"
| "center_setter (Lst xs) = Point_new xs"
| "center_setter (Tup xs) = Point_new xs"

fun angle_setter :: "pyarg \<Rightarrow> error + point" where
  "angle_setter (Pnt p) = Inr p"
| "angle_setter (Num a) = Point_new [a, a, a]"
| "angle_setter (Lst xs) = Point_new xs"
| "angle_setter (Tup xs) = Point_new xs"

text \<open>The scale setter stores a \<open>Point\<close> and then, its second test being an \<open>if\<close>
  and not an \<open>elif\<close>, stores a copy \<open>Point(*scale)\<close> over it.\<close>

fun scale_setter :: "pyarg \<Rightarrow> error + point" where
  "scale_setter (Num s) = Point_new [s, s, s]"
| "scale_setter (Lst xs) = Point_new xs"
| "scale_setter (Tup xs) = Point_new xs"
| "scale_setter (Pnt p) = Point_new (point_iter p)"

subsection \<open>The three factors\<close>

text \<open>
  Each builder returns the matrix or the exception, and the object as it leaves it:
  the tracked \<open>Point\<close> is updated last, after the matrix is built. The entries of the
  rotation factor are results of numpy's \<open>cos\<close> and \<open>sin\<close>, floats whatever the
  components are.
\<close>

definition scale_matrix :: "mesh \<Rightarrow> pyarg \<Rightarrow> (error + mat) \<times> mesh" where
  "scale_matrix m s =
     (case (case s of
              Lst xs \<Rightarrow> (if \<not> list_all (\<lambda>v. v \<noteq> 0) xs then Inl AssertionError
                         else unpack3 s)
            | Tup xs \<Rightarrow> (if \<not> list_all (\<lambda>v. v \<noteq> 0) xs then Inl AssertionError
                         else unpack3 s)
            | Num f \<Rightarrow> (if isclose f 0 then Inl AssertionError else Inr (f, f, f))
            | Pnt p \<Rightarrow> Inl (TypeError ''Invalid scale.'')) of
        Inl e \<Rightarrow> (Inl e, m)
      | Inr (x, y, z) \<Rightarrow>
         (case np_matrix [[x, 0, 0, 0],
                          [0, y, 0, 0],
                          [0, 0, z, 0],
                          [0, 0, 0, 1]] of
            Inl e \<Rightarrow> (Inl e, m)
          | Inr scale_m \<Rightarrow>
             (case scale_setter (Pnt (point_imul (scale m) (x, y, z))) of
                Inl e \<Rightarrow> (Inl e, m)
              | Inr p \<Rightarrow> (Inr scale_m, m\<lparr>scale := p\<rparr>))))"

definition shift_matrix :: "mesh \<Rightarrow> pyarg \<Rightarrow> (error + mat) \<times> mesh" where
  "shift_matrix m shift =
     (case unpack3 shift of
        Inl e \<Rightarrow> (Inl e, m)
      | Inr (x, y, z) \<Rightarrow>
         (case np_matrix [[1, 0, 0, x],
                          [0, 1, 0, y],
                          [0, 0, 1, z],
                          [0, 0, 0, 1]] of
            Inl e \<Rightarrow> (Inl e, m)
          | Inr shift_m \<Rightarrow>
             (case center_setter (Pnt (point_iadd (center m) (x, y, z))) of
                Inl e \<Rightarrow> (Inl e, m)
              | Inr p \<Rightarrow> (Inr shift_m, m\<lparr>center := p\<rparr>))))"

definition rotation_matrix :: "mesh \<Rightarrow> pyarg \<Rightarrow> (error + mat) \<times> mesh" where
  "rotation_matrix m rotation =
     (case iter rotation of
        Inl e \<Rightarrow> (Inl e, m)
      | Inr as \<Rightarrow>
         (if \<not> list_all (\<lambda>a. - 2 * pi \<le> a \<and> a < 2 * pi) as then (Inl AssertionError, m)
          else
            (case unpack3 rotation of
               Inl e \<Rightarrow> (Inl e, m)
             | Inr (alfa, beta, gamma) \<Rightarrow>
                (let c_a = cos alfa; c_b = cos beta; c_c = cos gamma;
                     s_a = sin alfa; s_b = sin beta; s_c = sin gamma
                 in (case angle_setter (Pnt (point_iadd (angle m) (alfa, beta, gamma))) of
                       Inl e \<Rightarrow> (Inl e, m)
                     | Inr p \<Rightarrow>
                        (Inr [[c_b*c_c, s_a*s_b*c_c - c_a*s_c, c_a*s_b*c_c + s_a*s_c, 0],
                              [c_b*s_c, s_a*s_b*s_c + c_a*c_c, c_a*s_b*s_a - s_a*c_c, 0],
                              [   -s_b,               s_a*c_b,               c_a*c_b, 0],
                              [      0,                     0,                     0, 1]],
                         m\<lparr>angle := p\<rparr>))))))"

subsection \<open>Projection and the transform\<close>

definition to2D :: "mesh \<Rightarrow> error + quot list list" where
  "to2D m =
     (case inv_matrix camera of
        Inl e \<Rightarrow> Inl e
      | Inr ci \<Rightarrow>
         (case then_matmul (then_matmul (matmul focal ci) (transform_matrix m)) (vertices m) of
            Inl e \<Rightarrow> Inl e
          | Inr mapped_points \<Rightarrow>
             Inr (map (\<lambda>r. map2 np_divide r (mapped_points ! 2)) (take 2 mapped_points))))"

text \<open>
  \<open>applyTransform\<close> returns the exception that ended the call, if any, and the object
  as the call leaves it.
\<close>

definition applyTransform :: "mesh \<Rightarrow> pyarg \<Rightarrow> pyarg \<Rightarrow> pyarg \<Rightarrow> error option \<times> mesh" where
  "applyTransform m c a s =
     (case shift_matrix m c of
        (Inl e, m1) \<Rightarrow> (Some e, m1)
      | (Inr shift_m, m1) \<Rightarrow>
         (case rotation_matrix m1 a of
            (Inl e, m2) \<Rightarrow> (Some e, m2)
          | (Inr rotation_m, m2) \<Rightarrow>
             (case scale_matrix m2 s of
                (Inl e, m3) \<Rightarrow> (Some e, m3)
              | (Inr scale_m, m3) \<Rightarrow>
                 (case then_matmul (then_matmul (matmul scale_m rotation_m) shift_m)
                         (transform_matrix m3) of
                    Inl e \<Rightarrow> (Some e, m3)
                  | Inr t \<Rightarrow>
                     (let m4 = m3\<lparr>transform_matrix := t\<rparr>
                      in (case to2D m4 of
                            Inl e \<Rightarrow> (Some e, m4)
                          | Inr p \<Rightarrow> (None, m4\<lparr>vertices2D := p\<rparr>)))))))"

definition reset :: "mesh \<Rightarrow> mesh" where
  "reset m = m\<lparr>transform_matrix := transform_matrix_backup m\<rparr>"

definition disable :: "mesh \<Rightarrow> mesh" where
  "disable m = m\<lparr>show_flag := False\<rparr>"

definition enable :: "mesh \<Rightarrow> mesh" where
  "enable m = m\<lparr>show_flag := True\<rparr>"

text \<open>
  \<open>__init__\<close>. When it calls \<open>applyTransform\<close> the attributes
  \<open>_transform_matrix_backup\<close>, \<open>show\<close>, \<open>color\<close> and \<open>_2DVertices\<close> are not yet
  assigned; \<open>applyTransform\<close> reads none of them, and the record holds an arbitrary
  value there until the constructor assigns them. An exception leaves no object.
\<close>

definition Mesh_init ::
  "real list list \<Rightarrow> json \<Rightarrow> pyarg \<Rightarrow> pyarg \<Rightarrow> pyarg \<Rightarrow> string \<Rightarrow> error + mesh" where
  "Mesh_init vs es c a s col =
     (case vertices_setter vs of
        Inl e \<Rightarrow> Inl e
      | Inr v \<Rightarrow>
     (case center_setter c of
        Inl e \<Rightarrow> Inl e
      | Inr pc \<Rightarrow>
     (case angle_setter a of
        Inl e \<Rightarrow> Inl e
      | Inr pa \<Rightarrow>
     (case scale_setter s of
        Inl e \<Rightarrow> Inl e
      | Inr ps \<Rightarrow>
         (case applyTransform
                 \<lparr>vertices = v, edges = es, center = pc, angle = pa, scale = ps,
                  transform_matrix = identity 4, transform_matrix_backup = [],
                  show_flag = False, color = [], vertices2D = []\<rparr> c a s of
            (Some e, _) \<Rightarrow> Inl e
          | (None, m1) \<Rightarrow>
             Inr (m1\<lparr>transform_matrix_backup := transform_matrix m1,
                     show_flag := True, color := col\<rparr>))))))"

section \<open>The reader\<close>

text \<open>
  \<open>readFBX\<close> from the parsed document on: running the external converter and loading
  its output are outside this development.
\<close>

definition bind_err :: "error + 'a \<Rightarrow> ('a \<Rightarrow> error + 'b) \<Rightarrow> error + 'b" where
  "bind_err x f = (case x of Inl e \<Rightarrow> Inl e | Inr v \<Rightarrow> f v)"

text \<open>The results of a loop body in order, up to its first exception.\<close>

fun sequence_err :: "(error + 'a) list \<Rightarrow> error + 'a list" where
  "sequence_err [] = Inr []"
| "sequence_err (x # xs) =
     (case x of
        Inl e \<Rightarrow> Inl e
      | Inr v \<Rightarrow> (case sequence_err xs of Inl e \<Rightarrow> Inl e | Inr vs \<Rightarrow> Inr (v # vs)))"

text \<open>\<open>v2['properties'][idx]['value']\<close>.\<close>

definition prop_value :: "json \<Rightarrow> nat \<Rightarrow> error + json" where
  "prop_value v2 idx =
     bind_err (getitem_key v2 ''properties'') (\<lambda>ps.
     bind_err (getitem_idx ps idx) (\<lambda>p. getitem_key p ''value''))"

text \<open>\<open>v['children'][k]['properties'][0]['value']\<close>.\<close>

definition child_value :: "json \<Rightarrow> nat \<Rightarrow> error + json" where
  "child_value v k =
     bind_err (getitem_key v ''children'') (\<lambda>cs.
     bind_err (getitem_idx cs k) (\<lambda>c. prop_value c 0))"

text \<open>\<open>math.radians(x)\<close> and \<open>x / 100\<close> on a value of the document: a value that is
  not a number raises \<open>TypeError\<close>. An \<open>int\<close> too large for a float raises
  \<open>OverflowError\<close> where a float of the same size does not: numbers of magnitude
  \<open>2^63\<close> or more are not followed.\<close>

definition radians_of :: "json \<Rightarrow> error + real" where
  "radians_of j =
     (case as_number j of
        None \<Rightarrow> Inl (TypeError ''must be real number'')
      | Some x \<Rightarrow> if representable x then Inr (radians x) else Inl NotModelled)"

definition div100 :: "json \<Rightarrow> error + real" where
  "div100 j =
     (case as_number j of
        None \<Rightarrow> Inl (TypeError ''unsupported operand'')
      | Some x \<Rightarrow> if representable x then Inr (x / 100) else Inl NotModelled)"

text \<open>
  One attribute of a "Model" node: the body of the inner loop, on the lists
  \<open>center\<close>, \<open>angle\<close> and \<open>scale\<close>. The source looks the attribute's name up anew
  in each test; a lookup has no effect, so the model looks it up once.
\<close>

definition model_attribute ::
  "json \<Rightarrow> json list \<times> real list \<times> real list \<Rightarrow> error + json list \<times> real list \<times> real list" where
  "model_attribute v2 st =
     (case st of (center_l, angle_l, scale_l) \<Rightarrow>
        bind_err (prop_value v2 0) (\<lambda>attr.
          if attr = JStr ''Lcl Translation'' then
            bind_err (sequence_err (map (prop_value v2) [4, 5, 6])) (\<lambda>c.
              Inr (c, angle_l, scale_l))
          else if attr = JStr ''Lcl Rotation'' then
            bind_err (sequence_err (map (\<lambda>idx. bind_err (prop_value v2 idx) radians_of) [4, 5, 6]))
              (\<lambda>a. Inr (center_l, a, scale_l))
          else
            bind_err (getitem_idx attr 0) (\<lambda>first.
              if first = JStr ''Lcl Scaling'' then
                bind_err (sequence_err (map (\<lambda>idx. bind_err (prop_value v2 idx) div100) [4, 5, 6]))
                  (\<lambda>s. Inr (center_l, angle_l, scale_l @ s))
              else Inr st)))"

fun model_attributes ::
  "json list \<Rightarrow> json list \<times> real list \<times> real list \<Rightarrow> error + json list \<times> real list \<times> real list" where
  "model_attributes [] st = Inr st"
| "model_attributes (v2 # rest) st =
     (case model_attribute v2 st of Inl e \<Rightarrow> Inl e | Inr st' \<Rightarrow> model_attributes rest st')"

text \<open>
  The vertex buffer of the document as a nested list of numbers: a list of rows, a flat
  list (one row) or a single number. What numpy makes of any other value (a string or
  object matrix) is outside this development, which stops there with \<open>NotModelled\<close>.
\<close>

definition json_rows :: "json \<Rightarrow> error + real list list" where
  "json_rows j =
     (case j of
        JArr xs \<Rightarrow>
          (case those (map as_number xs) of
             Some r \<Rightarrow> Inr (if r = [] then [] else [r])
           | None \<Rightarrow>
              (case those (map (\<lambda>x. case x of JArr ys \<Rightarrow> those (map as_number ys) | _ \<Rightarrow> None) xs) of
                 Some rows \<Rightarrow> Inr rows
               | None \<Rightarrow> Inl NotModelled))
      | _ \<Rightarrow> (case as_number j of Some x \<Rightarrow> Inr [[x]] | None \<Rightarrow> Inl NotModelled))"

text \<open>
  \<open>Mesh(vertices, edges, center, angle, scale)\<close> as the reader calls it, with
  \<open>center\<close> a list of values of the document. Modelled from the spec: a list holding a
  value that is not a number is refused by the missing class \<open>Point\<close> with
  \<open>TypeError\<close> ("rejecting non-numeric ... inputs"), in the \<open>center\<close> setter, that is
  after the \<open>vertices\<close> setter has run.
\<close>

definition Mesh_call ::
  "real list list \<Rightarrow> json \<Rightarrow> json list \<Rightarrow> real list \<Rightarrow> real list \<Rightarrow> error + mesh" where
  "Mesh_call vs es center_l angle_l scale_l =
     (case those (map as_number center_l) of
        Some c \<Rightarrow> Mesh_init vs es (Lst c) (Lst angle_l) (Lst scale_l) ''b''
      | None \<Rightarrow>
         (case vertices_setter vs of Inl e \<Rightarrow> Inl e | Inr _ \<Rightarrow> Inl (TypeError ''Point'')))"

text \<open>The loop over the object list, on \<open>mesh_list\<close>, \<open>counter\<close>, \<open>center\<close>,
  \<open>angle\<close> and \<open>scale\<close>.\<close>

fun readFBX_loop ::
  "json list \<Rightarrow> mesh list \<Rightarrow> nat \<Rightarrow> json list \<Rightarrow> real list \<Rightarrow> real list \<Rightarrow> error + mesh list" where
  "readFBX_loop [] mesh_list counter center_l angle_l scale_l = Inr mesh_list"
| "readFBX_loop (v # rest) mesh_list counter center_l angle_l scale_l =
     (case getitem_key v ''name'' of
        Inl e \<Rightarrow> Inl e
      | Inr name \<Rightarrow>
         (if name = JStr ''Geometry'' then
            (case child_value v 2 of
               Inl e \<Rightarrow> Inl e
             | Inr vertices_j \<Rightarrow>
                (case child_value v 4 of
                   Inl e \<Rightarrow> Inl e
                 | Inr edges_j \<Rightarrow>
                    (case bind_err (json_rows vertices_j)
                            (\<lambda>vs. Mesh_call vs edges_j center_l angle_l scale_l) of
                       Inl e \<Rightarrow> Inl e
                     | Inr new_mesh \<Rightarrow>
                        readFBX_loop rest (mesh_list @ [new_mesh]) counter
                          center_l angle_l scale_l)))
          else if name = JStr ''Model'' then
            (case bind_err (getitem_key v ''children'') (\<lambda>cs.
                  bind_err (getitem_idx cs 1) (\<lambda>c.
                  bind_err (getitem_key c ''children'') (\<lambda>attrs.
                  bind_err (iter_json attrs) (\<lambda>vs2.
                    model_attributes vs2 (center_l, angle_l, scale_l))))) of
               Inl e \<Rightarrow> Inl e
             | Inr (center', angle', scale') \<Rightarrow>
                (if counter < length mesh_list then
                   (case Mesh_call (vertices (mesh_list ! counter)) (edges (mesh_list ! counter))
                           center' angle' scale' of
                      Inl e \<Rightarrow> Inl e
                    | Inr new_mesh \<Rightarrow>
                       readFBX_loop rest (mesh_list[counter := new_mesh]) (counter + 1)
                         [JNum 0, JNum 0, JNum 0] [0, 0, 0] [])
                 else Inl IndexError))
          else readFBX_loop rest mesh_list counter center_l angle_l scale_l))"

definition readFBX :: "json \<Rightarrow> error + mesh list" where
  "readFBX data =
     bind_err (getitem_key data ''children'') (\<lambda>cs.
     bind_err (getitem_idx cs 8) (\<lambda>top.
     bind_err (getitem_key top ''children'') (\<lambda>objs.
     bind_err (iter_json objs) (\<lambda>vs.
       readFBX_loop vs [] 0 [JNum 0, JNum 0, JNum 0] [0, 0, 0] []))))"

subsection \<open>The end-to-end scenario\<close>

text \<open>A node holding one property with the given value, and an attribute of a "Model"
  node: its name and its three components at the indices 4, 5 and 6.\<close>

definition prop_node :: "json \<Rightarrow> json" where
  "prop_node x = JObj [(''properties'', JArr [JObj [(''value'', x)]])]"

definition attribute_node :: "string \<Rightarrow> real \<Rightarrow> real \<Rightarrow> real \<Rightarrow> json" where
  "attribute_node name x y z =
     JObj [(''properties'',
            JArr [JObj [(''value'', JStr name)], JObj [(''value'', JStr [])],
                  JObj [(''value'', JStr [])], JObj [(''value'', JStr [])],
                  JObj [(''value'', JNum x)], JObj [(''value'', JNum y)],
                  JObj [(''value'', JNum z)]])]"

definition geometry_node :: json where
  "geometry_node =
     JObj [(''name'', JStr ''Geometry''),
           (''children'',
            JArr [JNull, JNull,
                  prop_node (JArr [JArr [JNum 0, JNum 0, JNum 0, JNum 1],
                                   JArr [JNum 1, JNum 0, JNum 0, JNum 1]]),
                  JNull,
                  prop_node (JArr [JNum 0, JNum 1])])]"

definition model_node :: json where
  "model_node =
     JObj [(''name'', JStr ''Model''),
           (''children'',
            JArr [JNull,
                  JObj [(''children'',
                         JArr [attribute_node ''Lcl Translation'' 1 0 0,
                               attribute_node ''Lcl Rotation'' 0 0 0,
                               attribute_node ''Lcl Scaling'' 100 100 100])]])]"

definition document :: "json list \<Rightarrow> json" where
  "document objects =
     JObj [(''children'',
            JArr [JNull, JNull, JNull, JNull, JNull, JNull, JNull, JNull,
                  JObj [(''children'', JArr objects)]])]"

section \<open>Well-formed objects\<close>

text \<open>A matrix of \<open>r\<close> rows and \<open>c\<close> columns.\<close>

definition is_shape :: "nat \<Rightarrow> nat \<Rightarrow> 'a list list \<Rightarrow> bool" where
  "is_shape r c M = (length M = r \<and> list_all (\<lambda>row. length row = c) M)"

text \<open>The shapes the projection needs: a 4\<times>4 transform and a vertex buffer of four
  rows of one length. The object has them from the moment \<open>__init__\<close> has assigned the
  identity to \<open>transform_matrix\<close>, before the backup exists.\<close>

definition projectable :: "mesh \<Rightarrow> bool" where
  "projectable m =
     (is_shape 4 4 (transform_matrix m) \<and> is_shape 4 (snd (shape (vertices m))) (vertices m))"

text \<open>The shapes a constructed object keeps: the backup is 4\<times>4 as well.\<close>

definition well_formed :: "mesh \<Rightarrow> bool" where
  "well_formed m = (projectable m \<and> is_shape 4 4 (transform_matrix_backup m))"





text \<open>A caller making one \<open>applyTransform\<close> call after the other on the same object,
  going on after a call that raised.\<close>

fun apply_calls :: "mesh \<Rightarrow> (pyarg \<times> pyarg \<times> pyarg) list \<Rightarrow> mesh" where
  "apply_calls m [] = m"
| "apply_calls m ((c, a, s) # calls) = apply_calls (snd (applyTransform m c a s)) calls"

text \<open>The object \<open>Mesh([[0,0,0,1],[1,0,0,1]], [0,1], [1,0,0], [0,0,0], [1,1,1])\<close>
  builds (lemma \<open>Mesh_init_example\<close> below).\<close>

definition example_mesh :: mesh where
  "example_mesh =
     \<lparr>vertices = [[0, 1], [0, 0], [0, 0], [1, 1]],
      edges = JArr [JNum 0, JNum 1],
      center = Point 2 0 0, angle = Point 0 0 0, scale = Point 1 1 1,
      transform_matrix = [[1, 0, 0, 1], [0, 1, 0, 0], [0, 0, 1, 0], [0, 0, 0, 1]],
      transform_matrix_backup = [[1, 0, 0, 1], [0, 1, 0, 0], [0, 0, 1, 0], [0, 0, 0, 1]],
      show_flag = True, color = ''b'',
      vertices2D = [[NonFinite, NonFinite], [NonFinite, NonFinite]]\<rparr>"

text \<open>
  The docstring of \<open>_rotation_matrix\<close> cites the general rotation of
  \<^verbatim>\<open>https://en.wikipedia.org/wiki/Rotation_matrix#In_three_dimensions\<close>: the product of
  the elementary rotations about the z, y and x axes. The reference below is that product,
  taken from the cited page and not from the source, with the first component of the
  argument about x and the third about z, which is how the source's entries use them.
\<close>

definition Rx :: "real \<Rightarrow> mat" where
  "Rx t = [[1, 0, 0, 0], [0, cos t, - sin t, 0], [0, sin t, cos t, 0], [0, 0, 0, 1]]"

definition Ry :: "real \<Rightarrow> mat" where
  "Ry t = [[cos t, 0, sin t, 0], [0, 1, 0, 0], [- sin t, 0, cos t, 0], [0, 0, 0, 1]]"

definition Rz :: "real \<Rightarrow> mat" where
  "Rz t = [[cos t, - sin t, 0, 0], [sin t, cos t, 0, 0], [0, 0, 1, 0], [0, 0, 0, 1]]"

definition reference_rotation :: "real \<Rightarrow> real \<Rightarrow> real \<Rightarrow> error + mat" where
  "reference_rotation alfa beta gamma = then_matmul (matmul (Rz gamma) (Ry beta)) (Rx alfa)"

section \<open>The fixed matrices\<close>

lemma identity_4: "identity 4 = [[1, 0, 0, 0], [0, 1, 0, 0], [0, 0, 1, 0], [0, 0, 0, 1]]"
  by (simp add: identity_def numeral_eq_Suc)

lemma det_camera: "det camera = 1"
  by (simp add: camera_def Let_def)

lemma inv_camera:
  "inv_matrix camera = Inr
    [[sqrt 2 / 2, - (sqrt 2 / 2), 0, - (sqrt 2 / 2)],
     [sqrt 2 / 2, sqrt 2 / 2, 0, - (sqrt 2 / 2)],
     [0, 0, 1, 0],
     [0, 0, 0, 1]]"
  unfolding inv_matrix_def det_camera
  by (simp add: camera_def Let_def cofactor_def)

lemma inv_camera_is_inverse:
  "matmul [[sqrt 2 / 2, - (sqrt 2 / 2), 0, - (sqrt 2 / 2)],
           [sqrt 2 / 2, sqrt 2 / 2, 0, - (sqrt 2 / 2)],
           [0, 0, 1, 0],
           [0, 0, 0, 1]] camera = Inr (identity 4)"
  by (simp add: matmul_def shape_def camera_def Let_def dot_def identity_4)

lemma Mesh_init_example:
  "Mesh_init [[0, 0, 0, 1], [1, 0, 0, 1]] (JArr [JNum 0, JNum 1])
     (Lst [1, 0, 0]) (Lst [0, 0, 0]) (Lst [1, 1, 1]) ''b'' = Inr example_mesh"
  by (simp add: Mesh_init_def vertices_setter_def asmatrix_def np_matrix_def representable_def shape_def Point_new_def
      applyTransform_def shift_matrix_def np_matrix_def representable_def rotation_matrix_def scale_matrix_def np_matrix_def representable_def float_mul_def unpack3_def
      identity_4 matmul_def then_matmul_def dot_def to2D_def inv_camera focal_def Let_def
      np_divide_def example_mesh_def)

section \<open>An empty scale\<close>

text \<open>\<open>x, y, z = scale\<close> cannot unpack the empty list: \<open>all([])\<close> holds, so the
  assertion before it passes.\<close>

lemma scale_matrix_empty: "scale_matrix m (Lst []) = (Inl ValueError, m)"
  by (simp add: scale_matrix_def np_matrix_def representable_def float_mul_def unpack3_def)

lemma applyTransform_empty_scale: "\<exists>e m'. applyTransform m c a (Lst []) = (Some e, m')"
  by (auto simp: applyTransform_def scale_matrix_empty split: prod.splits sum.splits)

lemma Mesh_init_no_scale: "\<exists>e. Mesh_init vs es c a (Lst []) col = Inl e"
proof (cases "Mesh_init vs es c a (Lst []) col")
  case (Inl e)
  then show ?thesis by blast
next
  case (Inr m)
  then obtain m0 m1 where "applyTransform m0 c a (Lst []) = (None, m1)"
    by (auto simp: Mesh_init_def split: sum.splits prod.splits option.splits)
  then show ?thesis using applyTransform_empty_scale[of m0 c a] by auto
qed

lemma Mesh_call_no_scale: "\<exists>e. Mesh_call vs es center_l angle_l [] = Inl e"
  using Mesh_init_no_scale
  by (auto simp: Mesh_call_def split: option.splits sum.splits)

text \<open>
  The reader starts with \<open>scale = []\<close> and an empty list, and puts \<open>scale\<close> back to
  \<open>[]\<close> after every "Model" node. So the first "Geometry" node ends the traversal with
  an exception, a "Model" node before it finds no Mesh at \<open>mesh_list[counter]\<close>, and
  the reader returns only when the object list holds neither: with the empty list.
\<close>

lemma readFBX_loop_no_mesh:
  "readFBX_loop nodes [] counter center_l angle_l [] = Inr ms \<Longrightarrow> ms = []"
proof (induction nodes)
  case Nil
  then show ?case by simp
next
  case (Cons v rest)
  have no: "Mesh_call vs es center_l angle_l [] \<noteq> Inr m" for vs es m
    using Mesh_call_no_scale[of vs es center_l angle_l] by auto
  show ?case
    using Cons.prems Cons.IH
    by (auto simp: bind_err_def no split: sum.splits if_splits prod.splits)
qed

lemma readFBX_no_mesh: "readFBX data = Inr ms \<Longrightarrow> ms = []"
  using readFBX_loop_no_mesh
  by (auto simp: readFBX_def bind_err_def split: sum.splits)

text \<open>
  C8. The "Geometry" branch of the reader builds \<open>Mesh(vertices, edges, [0,0,0],
  [0,0,0], [])\<close>. That construction raises for every vertex and edge buffer, whatever the
  setters do with the empty list: \<open>applyTransform\<close> reaches \<open>x, y, z = scale\<close> at the
  latest. No Mesh is built or appended.
\<close>

theorem Mesh_init_empty_scale_raises:
  "\<exists>e. Mesh_init vs es (Lst [0, 0, 0]) (Lst [0, 0, 0]) (Lst []) col = Inl e"
proof (cases "Mesh_init vs es (Lst [0, 0, 0]) (Lst [0, 0, 0]) (Lst []) col")
  case (Inl e)
  then show ?thesis by blast
next
  case (Inr m)
  then obtain m0 m1 where "applyTransform m0 (Lst [0, 0, 0]) (Lst [0, 0, 0]) (Lst []) = (None, m1)"
    by (auto simp: Mesh_init_def split: sum.splits prod.splits option.splits)
  moreover obtain e m' where "applyTransform m0 (Lst [0, 0, 0]) (Lst [0, 0, 0]) (Lst []) = (Some e, m')"
    using applyTransform_empty_scale by blast
  ultimately show ?thesis by simp
qed

lemma readFBX_geometry_only:
  "readFBX (document [geometry_node]) = Inl (TypeError ''Point'')"
  by (simp add: readFBX_def document_def geometry_node_def bind_err_def
      child_value_def prop_value_def prop_node_def json_rows_def Mesh_call_def Mesh_init_def
      vertices_setter_def asmatrix_def np_matrix_def representable_def shape_def Point_new_def)

text \<open>
  C1. The document of the end-to-end scenario: one "Geometry" node (vertices
  \<open>[[0,0,0,1],[1,0,0,1]]\<close>, edges \<open>[0,1]\<close>) followed by one "Model" node with
  Lcl Translation (1,0,0), Lcl Rotation (0,0,0) and Lcl Scaling (100,100,100). The
  traversal raises at the "Geometry" node and returns no list: the Mesh built there has
  the empty scale. The exception shown is the one of the modelled \<open>Point()\<close>; with a
  \<open>Point\<close> class that takes no arguments the construction raises in
  \<open>_scale_matrix\<close> instead (lemma \<open>scale_matrix_empty\<close>).
\<close>

theorem readFBX_scenario_raises:
  "readFBX (document [geometry_node, model_node]) = Inl (TypeError ''Point'')"
  by (simp add: readFBX_def document_def geometry_node_def model_node_def bind_err_def
      child_value_def prop_value_def prop_node_def json_rows_def Mesh_call_def Mesh_init_def
      vertices_setter_def asmatrix_def np_matrix_def representable_def shape_def Point_new_def)

section \<open>What a call leaves alone\<close>

text \<open>Each builder changes its own tracked \<open>Point\<close> and nothing else, and nothing at
  all when it raises.\<close>

lemma representable_simps [simp]: "representable 0" "representable 1"
  by (simp_all add: representable_def)

lemma scale_setter_Pnt: "scale_setter (Pnt p) = Inr p"
  by (cases p) (simp add: Point_new_def)

lemma shift_matrix_eq:
  "shift_matrix m c =
     (case unpack3 c of
        Inl e \<Rightarrow> (Inl e, m)
      | Inr (x, y, z) \<Rightarrow>
          (if representable x \<and> representable y \<and> representable z
           then (Inr [[1, 0, 0, x], [0, 1, 0, y], [0, 0, 1, z], [0, 0, 0, 1]],
                 m\<lparr>center := point_iadd (center m) (x, y, z)\<rparr>)
           else (Inl NotModelled, m)))"
  by (simp add: shift_matrix_def np_matrix_def representable_def split: sum.splits prod.splits)

lemma shift_matrix_frame:
  assumes "shift_matrix m c = (r, m')"
  shows "m' = m\<lparr>center := center m'\<rparr>" and "\<And>e. r = Inl e \<Longrightarrow> m' = m"
  using assms by (auto simp: shift_matrix_eq split: sum.splits prod.splits if_splits)

lemma rotation_matrix_frame:
  assumes "rotation_matrix m a = (r, m')"
  shows "m' = m\<lparr>angle := angle m'\<rparr>" and "\<And>e. r = Inl e \<Longrightarrow> m' = m"
  using assms
  by (auto simp: rotation_matrix_def Let_def split: sum.splits prod.splits if_splits)

lemma scale_matrix_frame:
  assumes "scale_matrix m s = (r, m')"
  shows "m' = m\<lparr>scale := scale m'\<rparr>" and "\<And>e. r = Inl e \<Longrightarrow> m' = m"
  using assms
  by (auto simp: scale_matrix_def np_matrix_def scale_setter_Pnt
      split: sum.splits prod.splits if_splits pyarg.splits)

lemma to2D_vertices2D [simp]: "to2D (m\<lparr>vertices2D := p\<rparr>) = to2D m"
  by (simp add: to2D_def split: sum.splits)

lemma applyTransform_frame:
  assumes "applyTransform m c a s = (r, m')"
  shows "vertices m' = vertices m" "edges m' = edges m"
    "transform_matrix_backup m' = transform_matrix_backup m"
    "show_flag m' = show_flag m" "color m' = color m"
proof -
  obtain r1 m1 where 1: "shift_matrix m c = (r1, m1)" by (cases "shift_matrix m c")
  obtain r2 m2 where 2: "rotation_matrix m1 a = (r2, m2)" by (cases "rotation_matrix m1 a")
  obtain r3 m3 where 3: "scale_matrix m2 s = (r3, m3)" by (cases "scale_matrix m2 s")
  obtain p1 where f1: "m1 = m\<lparr>center := p1\<rparr>" using shift_matrix_frame(1)[OF 1] by blast
  obtain p2 where f2: "m2 = m1\<lparr>angle := p2\<rparr>" using rotation_matrix_frame(1)[OF 2] by blast
  obtain p3 where f3: "m3 = m2\<lparr>scale := p3\<rparr>" using scale_matrix_frame(1)[OF 3] by blast
  have m1: "vertices m1 = vertices m \<and> edges m1 = edges m \<and>
      transform_matrix_backup m1 = transform_matrix_backup m \<and>
      show_flag m1 = show_flag m \<and> color m1 = color m"
    by (simp add: f1)
  have m2: "vertices m2 = vertices m1 \<and> edges m2 = edges m1 \<and>
      transform_matrix_backup m2 = transform_matrix_backup m1 \<and>
      show_flag m2 = show_flag m1 \<and> color m2 = color m1"
    by (simp add: f2)
  have m3: "vertices m3 = vertices m2 \<and> edges m3 = edges m2 \<and>
      transform_matrix_backup m3 = transform_matrix_backup m2 \<and>
      show_flag m3 = show_flag m2 \<and> color m3 = color m2"
    by (simp add: f3)
  have "m' = m1 \<or> m' = m2 \<or> m' = m3 \<or> (\<exists>t. m' = m3\<lparr>transform_matrix := t\<rparr>) \<or>
        (\<exists>t p. m' = m3\<lparr>transform_matrix := t, vertices2D := p\<rparr>)"
    using assms 1 2 3
    by (auto simp: applyTransform_def Let_def split: sum.splits)
  then show "vertices m' = vertices m" "edges m' = edges m"
    "transform_matrix_backup m' = transform_matrix_backup m"
    "show_flag m' = show_flag m" "color m' = color m"
    using m1 m2 m3 by auto
qed

lemma apply_calls_frame:
  "vertices (apply_calls m calls) = vertices m \<and> edges (apply_calls m calls) = edges m \<and>
   transform_matrix_backup (apply_calls m calls) = transform_matrix_backup m \<and>
   show_flag (apply_calls m calls) = show_flag m \<and> color (apply_calls m calls) = color m"
proof (induction calls arbitrary: m)
  case Nil
  then show ?case by simp
next
  case (Cons call calls)
  obtain c a s where call: "call = (c, a, s)" by (cases call)
  obtain r m' where ap: "applyTransform m c a s = (r, m')" by (cases "applyTransform m c a s")
  show ?case
    using Cons.IH[of m'] applyTransform_frame[OF ap] by (simp add: call ap)
qed

lemma Mesh_init_backup:
  assumes "Mesh_init vs es c a s col = Inr m0"
  shows "transform_matrix_backup m0 = transform_matrix m0"
  using assms
  by (auto simp: Mesh_init_def split: sum.splits prod.splits option.splits)

text \<open>
  C9. For a constructed Mesh and any sequence of \<open>applyTransform\<close> calls on it (calls
  that raise included), \<open>reset()\<close> puts the transform the constructor left, which is the
  backup, back into \<open>transform_matrix\<close>, and changes no other attribute: the tracked
  center, angle and scale, the vertices, the edges and the show flag stay as the calls
  left them.
\<close>

theorem reset_restores_backup_only:
  assumes "Mesh_init vs es c a s col = Inr m0"
  shows "transform_matrix (reset (apply_calls m0 calls)) = transform_matrix m0 \<and>
         reset (apply_calls m0 calls) =
           (apply_calls m0 calls)\<lparr>transform_matrix := transform_matrix_backup m0\<rparr> \<and>
         center (reset (apply_calls m0 calls)) = center (apply_calls m0 calls) \<and>
         angle (reset (apply_calls m0 calls)) = angle (apply_calls m0 calls) \<and>
         scale (reset (apply_calls m0 calls)) = scale (apply_calls m0 calls) \<and>
         vertices (reset (apply_calls m0 calls)) = vertices (apply_calls m0 calls) \<and>
         edges (reset (apply_calls m0 calls)) = edges (apply_calls m0 calls) \<and>
         show_flag (reset (apply_calls m0 calls)) = show_flag (apply_calls m0 calls)"
  using apply_calls_frame[of m0 calls] Mesh_init_backup[OF assms]
  by (simp add: reset_def)

theorem reset_restores_backup_only_witness:
  "Mesh_init [[0, 0, 0, 1], [1, 0, 0, 1]] (JArr [JNum 0, JNum 1])
     (Lst [1, 0, 0]) (Lst [0, 0, 0]) (Lst [1, 1, 1]) ''b'' = Inr example_mesh \<and>
   transform_matrix (reset (apply_calls example_mesh [(Lst [0, 2, 0], Lst [0, 0, 0], Num 3)])) =
     [[1, 0, 0, 1], [0, 1, 0, 0], [0, 0, 1, 0], [0, 0, 0, 1]] \<and>
   center (reset (apply_calls example_mesh [(Lst [0, 2, 0], Lst [0, 0, 0], Num 3)])) =
     center (apply_calls example_mesh [(Lst [0, 2, 0], Lst [0, 0, 0], Num 3)])"
  using reset_restores_backup_only [OF Mesh_init_example,
      of "[(Lst [0, 2, 0], Lst [0, 0, 0], Num 3)]"] Mesh_init_example
  by (simp add: example_mesh_def)

section \<open>Where a call can stop\<close>

lemma shift_matrix_transform:
  "shift_matrix m c = (r, m') \<Longrightarrow> transform_matrix m' = transform_matrix m \<and> scale m' = scale m"
  using shift_matrix_frame(1)[of m c r m'] by (metis mesh.select_convs(5,6) mesh.surjective mesh.update_convs(3))

lemma rotation_matrix_transform:
  "rotation_matrix m a = (r, m') \<Longrightarrow> transform_matrix m' = transform_matrix m \<and> scale m' = scale m"
  using rotation_matrix_frame(1)[of m a r m'] by (metis mesh.select_convs(5,6) mesh.surjective mesh.update_convs(4))

lemma scale_matrix_transform:
  "scale_matrix m s = (r, m') \<Longrightarrow> transform_matrix m' = transform_matrix m"
  using scale_matrix_frame(1)[of m s r m'] by (metis mesh.select_convs(6) mesh.surjective mesh.update_convs(5))

lemma applyTransform_shift_raises:
  "shift_matrix m c = (Inl e, m1) \<Longrightarrow> applyTransform m c a s = (Some e, m1)"
  by (simp add: applyTransform_def)

lemma applyTransform_rotation_raises:
  "shift_matrix m c = (Inr sh, m1) \<Longrightarrow> rotation_matrix m1 a = (Inl e, m2) \<Longrightarrow>
   applyTransform m c a s = (Some e, m2)"
  by (simp add: applyTransform_def)

lemma applyTransform_scale_raises:
  "shift_matrix m c = (Inr sh, m1) \<Longrightarrow> rotation_matrix m1 a = (Inr ro, m2) \<Longrightarrow>
   scale_matrix m2 s = (Inl e, m3) \<Longrightarrow> applyTransform m c a s = (Some e, m3)"
  by (simp add: applyTransform_def)

lemma applyTransform_cases:
  obtains (shift) e m1 where "shift_matrix m c = (Inl e, m1)" "applyTransform m c a s = (Some e, m1)"
  | (rotation) sh m1 e m2 where "shift_matrix m c = (Inr sh, m1)" "rotation_matrix m1 a = (Inl e, m2)"
      "applyTransform m c a s = (Some e, m2)"
  | (scale) sh m1 ro m2 e m3 where "shift_matrix m c = (Inr sh, m1)"
      "rotation_matrix m1 a = (Inr ro, m2)" "scale_matrix m2 s = (Inl e, m3)"
      "applyTransform m c a s = (Some e, m3)"
  | (built) sh m1 ro m2 sc m3 where "shift_matrix m c = (Inr sh, m1)"
      "rotation_matrix m1 a = (Inr ro, m2)" "scale_matrix m2 s = (Inr sc, m3)"
proof -
  obtain r1 m1 where 1: "shift_matrix m c = (r1, m1)" by (cases "shift_matrix m c")
  obtain r2 m2 where 2: "rotation_matrix m1 a = (r2, m2)" by (cases "rotation_matrix m1 a")
  obtain r3 m3 where 3: "scale_matrix m2 s = (r3, m3)" by (cases "scale_matrix m2 s")
  show ?thesis
  proof (cases r1)
    case (Inl e)
    then show ?thesis using 1 shift applyTransform_shift_raises by blast
  next
    case sh: (Inr sh)
    show ?thesis
    proof (cases r2)
      case (Inl e)
      then show ?thesis using 1 2 sh rotation applyTransform_rotation_raises by blast
    next
      case ro: (Inr ro)
      show ?thesis
      proof (cases r3)
        case (Inl e)
        then show ?thesis using 1 2 3 sh ro scale applyTransform_scale_raises by blast
      next
        case (Inr sc)
        then show ?thesis using 1 2 3 sh ro built by blast
      qed
    qed
  qed
qed

text \<open>
  C5. When \<open>applyTransform\<close> fails while building the shift, the rotation or the scale
  factor, the call ends with that exception and \<open>transform_matrix\<close> is what it was
  before the call. The product is assigned only after all three factors are built: a call
  that changes \<open>transform_matrix\<close> has built all three.
\<close>

theorem applyTransform_all_or_nothing:
  "(\<forall>e m1. shift_matrix m c = (Inl e, m1) \<longrightarrow>
      applyTransform m c a s = (Some e, m1) \<and> transform_matrix m1 = transform_matrix m) \<and>
   (\<forall>sh m1 e m2. shift_matrix m c = (Inr sh, m1) \<and> rotation_matrix m1 a = (Inl e, m2) \<longrightarrow>
      applyTransform m c a s = (Some e, m2) \<and> transform_matrix m2 = transform_matrix m) \<and>
   (\<forall>sh m1 ro m2 e m3. shift_matrix m c = (Inr sh, m1) \<and> rotation_matrix m1 a = (Inr ro, m2) \<and>
        scale_matrix m2 s = (Inl e, m3) \<longrightarrow>
      applyTransform m c a s = (Some e, m3) \<and> transform_matrix m3 = transform_matrix m) \<and>
   (transform_matrix (snd (applyTransform m c a s)) \<noteq> transform_matrix m \<longrightarrow>
      (\<exists>sh m1 ro m2 sc m3. shift_matrix m c = (Inr sh, m1) \<and>
         rotation_matrix m1 a = (Inr ro, m2) \<and> scale_matrix m2 s = (Inr sc, m3)))"
proof (intro conjI allI impI)
  fix e m1 assume "shift_matrix m c = (Inl e, m1)"
  then show "applyTransform m c a s = (Some e, m1)" "transform_matrix m1 = transform_matrix m"
    using applyTransform_shift_raises shift_matrix_transform by blast+
next
  fix sh m1 e m2
  assume "shift_matrix m c = (Inr sh, m1) \<and> rotation_matrix m1 a = (Inl e, m2)"
  then show "applyTransform m c a s = (Some e, m2)" "transform_matrix m2 = transform_matrix m"
    using applyTransform_rotation_raises shift_matrix_transform rotation_matrix_transform
    by (blast, metis)
next
  fix sh m1 ro m2 e m3
  assume "shift_matrix m c = (Inr sh, m1) \<and> rotation_matrix m1 a = (Inr ro, m2) \<and>
        scale_matrix m2 s = (Inl e, m3)"
  then show "applyTransform m c a s = (Some e, m3)" "transform_matrix m3 = transform_matrix m"
    using applyTransform_scale_raises shift_matrix_transform rotation_matrix_transform
      scale_matrix_transform
    by (blast, metis)
next
  assume ch: "transform_matrix (snd (applyTransform m c a s)) \<noteq> transform_matrix m"
  show "\<exists>sh m1 ro m2 sc m3. shift_matrix m c = (Inr sh, m1) \<and>
         rotation_matrix m1 a = (Inr ro, m2) \<and> scale_matrix m2 s = (Inr sc, m3)"
  proof (cases rule: applyTransform_cases[of m c a s])
    case (shift e m1)
    then show ?thesis using ch shift_matrix_transform by (metis snd_conv)
  next
    case (rotation sh m1 e m2)
    then show ?thesis using ch shift_matrix_transform rotation_matrix_transform by (metis snd_conv)
  next
    case (scale sh m1 ro m2 e m3)
    then show ?thesis using ch shift_matrix_transform rotation_matrix_transform
        scale_matrix_transform by (metis snd_conv)
  next
    case (built sh m1 ro m2 sc m3)
    then show ?thesis by blast
  qed
qed

theorem applyTransform_all_or_nothing_witness:
  "scale_matrix (example_mesh\<lparr>center := Point 3 0 0\<rparr>) (Lst [0, 1, 1]) =
     (Inl AssertionError, example_mesh\<lparr>center := Point 3 0 0\<rparr>) \<and>
   applyTransform example_mesh (Lst [1, 0, 0]) (Lst [0, 0, 0]) (Lst [0, 1, 1]) =
     (Some AssertionError, example_mesh\<lparr>center := Point 3 0 0\<rparr>) \<and>
   transform_matrix (example_mesh\<lparr>center := Point 3 0 0\<rparr>) = transform_matrix example_mesh"
proof -
  have 1: "shift_matrix example_mesh (Lst [1, 0, 0]) =
      (Inr [[1, 0, 0, 1], [0, 1, 0, 0], [0, 0, 1, 0], [0, 0, 0, 1]],
       example_mesh\<lparr>center := Point 3 0 0\<rparr>)"
    by (simp add: shift_matrix_def np_matrix_def representable_def unpack3_def example_mesh_def)
  have 2: "rotation_matrix (example_mesh\<lparr>center := Point 3 0 0\<rparr>) (Lst [0, 0, 0]) =
      (Inr [[1, 0, 0, 0], [0, 1, 0, 0], [0, 0, 1, 0], [0, 0, 0, 1]],
       example_mesh\<lparr>center := Point 3 0 0\<rparr>)"
    by (simp add: rotation_matrix_def unpack3_def example_mesh_def)
  have 3: "scale_matrix (example_mesh\<lparr>center := Point 3 0 0\<rparr>) (Lst [0, 1, 1]) =
      (Inl AssertionError, example_mesh\<lparr>center := Point 3 0 0\<rparr>)"
    by (simp add: scale_matrix_def np_matrix_def representable_def float_mul_def)
  from applyTransform_all_or_nothing
      [of example_mesh "Lst [1, 0, 0]" "Lst [0, 0, 0]" "Lst [0, 1, 1]"] 1 2 3
  have "applyTransform example_mesh (Lst [1, 0, 0]) (Lst [0, 0, 0]) (Lst [0, 1, 1]) =
          (Some AssertionError, example_mesh\<lparr>center := Point 3 0 0\<rparr>) \<and>
        transform_matrix (example_mesh\<lparr>center := Point 3 0 0\<rparr>) = transform_matrix example_mesh"
    by blast
  with 3 show ?thesis by simp
qed

section \<open>The scale factor\<close>

lemma Point_new_iter: "Point_new (point_iter p) = Inr p"
  by (cases p) (simp add: Point_new_def)

lemma isclose_zero: "isclose f 0 \<longleftrightarrow> f = 0"
  by (auto simp: isclose_def Let_def abs_if split: if_splits)

lemma scale_matrix_Pnt: "scale_matrix m (Pnt p) = (Inl (TypeError ''Invalid scale.''), m)"
  by (simp add: scale_matrix_def np_matrix_def representable_def float_mul_def)



lemma scale_matrix_diagonal:
  "x \<noteq> 0 \<Longrightarrow> y \<noteq> 0 \<Longrightarrow> z \<noteq> 0 \<Longrightarrow>
   representable x \<Longrightarrow> representable y \<Longrightarrow> representable z \<Longrightarrow>
   scale_matrix m (Lst [x, y, z]) =
     (Inr [[x, 0, 0, 0], [0, y, 0, 0], [0, 0, z, 0], [0, 0, 0, 1]],
      m\<lparr>scale := point_imul (scale m) (x, y, z)\<rparr>)"
  by (simp add: scale_matrix_def np_matrix_def unpack3_def Point_new_iter)

lemma scale_matrix_built:
  assumes "scale_matrix m s = (Inr sc, m')"
  shows "\<exists>x y z. x \<noteq> 0 \<and> y \<noteq> 0 \<and> z \<noteq> 0 \<and>
           sc = [[x, 0, 0, 0], [0, y, 0, 0], [0, 0, z, 0], [0, 0, 0, 1]] \<and>
           m' = m\<lparr>scale := point_imul (scale m) (x, y, z)\<rparr> \<and>
           (s = Lst [x, y, z] \<or> s = Tup [x, y, z] \<or> (s = Num x \<and> y = x \<and> z = x))"
proof (cases s)
  case (Num f)
  then show ?thesis using assms
    by (auto simp: scale_matrix_def np_matrix_def isclose_zero Point_new_iter split: if_splits)
next
  case (Lst xs)
  then show ?thesis using assms
    by (auto simp: scale_matrix_def np_matrix_def unpack3_def Point_new_iter split: if_splits list.splits)
next
  case (Tup xs)
  then show ?thesis using assms
    by (auto simp: scale_matrix_def np_matrix_def unpack3_def Point_new_iter split: if_splits list.splits)
next
  case (Pnt p)
  then show ?thesis using assms by (simp add: scale_matrix_def np_matrix_def)
qed







lemma applyTransform_scale_refused:
  assumes "\<And>m2. scale_matrix m2 s = (Inl e, m2)"
  shows "(\<exists>e'. fst (applyTransform m c a s) = Some e') \<and>
         transform_matrix (snd (applyTransform m c a s)) = transform_matrix m \<and>
         scale (snd (applyTransform m c a s)) = scale m \<and>
         (\<forall>sh m1 ro m2. shift_matrix m c = (Inr sh, m1) \<and> rotation_matrix m1 a = (Inr ro, m2) \<longrightarrow>
            applyTransform m c a s = (Some e, m2))"
proof (cases rule: applyTransform_cases[of m c a s])
  case (shift e m1)
  then show ?thesis using shift_matrix_transform by (metis fst_conv snd_conv sum.distinct(1) prod.inject)
next
  case (rotation sh m1 e m2)
  then show ?thesis using shift_matrix_transform rotation_matrix_transform
    by (metis fst_conv snd_conv sum.distinct(1) prod.inject sum.inject(2))
next
  case (scale sh m1 ro m2 e' m3)
  have "m3 = m2" "e' = e" using scale(3) assms[of m2] by simp_all
  moreover have "transform_matrix m2 = transform_matrix m \<and> scale m2 = scale m"
    using scale shift_matrix_transform rotation_matrix_transform by metis
  ultimately show ?thesis using scale by auto
next
  case (built sh m1 ro m2 sc m3)
  then show ?thesis using assms[of m2] by simp
qed

lemma shift_matrix_example:
  "shift_matrix example_mesh (Lst [1, 0, 0]) =
     (Inr [[1, 0, 0, 1], [0, 1, 0, 0], [0, 0, 1, 0], [0, 0, 0, 1]],
      example_mesh\<lparr>center := Point 3 0 0\<rparr>)"
  by (simp add: shift_matrix_def np_matrix_def representable_def unpack3_def example_mesh_def)

lemma rotation_matrix_example:
  "rotation_matrix (example_mesh\<lparr>center := Point 3 0 0\<rparr>) (Lst [0, 0, 0]) =
     (Inr [[1, 0, 0, 0], [0, 1, 0, 0], [0, 0, 1, 0], [0, 0, 0, 1]],
      example_mesh\<lparr>center := Point 3 0 0\<rparr>)"
  by (simp add: rotation_matrix_def unpack3_def example_mesh_def)




section \<open>A Point as scale\<close>

lemma Mesh_init_applies:
  assumes "Mesh_init vs es c a s col = Inr m0"
  shows "\<exists>m m1. applyTransform m c a s = (None, m1)"
  using assms by (auto simp: Mesh_init_def split: sum.splits prod.splits option.splits)

text \<open>
  C10. The scale setter takes a \<open>Point\<close>, but \<open>_scale_matrix\<close> raises
  \<open>TypeError("Invalid scale.")\<close> on one, for every object. So \<open>applyTransform\<close> with a
  \<open>Point\<close> as scale never returns and leaves \<open>transform_matrix\<close> unchanged; the
  exception is that \<open>TypeError\<close> whenever the call gets as far as \<open>_scale_matrix\<close>, that
  is once the shift and the rotation are built. The constructor, which makes the same call,
  raises as well.
\<close>

theorem scale_Point_refused:
  "scale_setter (Pnt p) = Inr p \<and>
   scale_matrix m (Pnt p) = (Inl (TypeError ''Invalid scale.''), m) \<and>
   (\<exists>e. fst (applyTransform m c a (Pnt p)) = Some e) \<and>
   transform_matrix (snd (applyTransform m c a (Pnt p))) = transform_matrix m \<and>
   (\<forall>sh m1 ro m2. shift_matrix m c = (Inr sh, m1) \<and> rotation_matrix m1 a = (Inr ro, m2) \<longrightarrow>
      applyTransform m c a (Pnt p) = (Some (TypeError ''Invalid scale.''), m2)) \<and>
   (\<exists>e. Mesh_init vs es c a (Pnt p) col = Inl e)"
proof -
  have r: "\<And>m2. scale_matrix m2 (Pnt p) = (Inl (TypeError ''Invalid scale.''), m2)"
    by (rule scale_matrix_Pnt)
  note ap = applyTransform_scale_refused[of "Pnt p" "TypeError ''Invalid scale.''", OF r]
  have "\<exists>e. Mesh_init vs es c a (Pnt p) col = Inl e"
  proof (cases "Mesh_init vs es c a (Pnt p) col")
    case (Inl e)
    then show ?thesis by blast
  next
    case (Inr m0)
    then obtain m' m1 where "applyTransform m' c a (Pnt p) = (None, m1)"
      using Mesh_init_applies by blast
    then show ?thesis using ap[of m' c a] by simp
  qed
  then show ?thesis using ap[of m c a] r scale_setter_Pnt by blast
qed

theorem scale_Point_refused_witness:
  "applyTransform example_mesh (Lst [1, 0, 0]) (Lst [0, 0, 0]) (Pnt (Point 2 2 2)) =
     (Some (TypeError ''Invalid scale.''), example_mesh\<lparr>center := Point 3 0 0\<rparr>) \<and>
   transform_matrix
     (snd (applyTransform example_mesh (Lst [1, 0, 0]) (Lst [0, 0, 0]) (Pnt (Point 2 2 2)))) =
     [[1, 0, 0, 1], [0, 1, 0, 0], [0, 0, 1, 0], [0, 0, 0, 1]]"
  using scale_Point_refused [of "Point 2 2 2" example_mesh "Lst [1, 0, 0]" "Lst [0, 0, 0]"]
    shift_matrix_example rotation_matrix_example
  by (simp add: example_mesh_def)

text \<open>
  The exception is not always that \<open>TypeError\<close>: the builders run in the order shift,
  rotation, scale, and a call whose center or angle is refused ends there. With an angle
  out of range the call raises \<open>AssertionError\<close>; with the defaults \<open>center = 0\<close> and
  \<open>angle = 0\<close> of the method it raises in \<open>_shift_matrix\<close>, which cannot unpack a
  number.
\<close>

theorem scale_Point_other_exception:
  "applyTransform example_mesh (Lst [1, 0, 0]) (Lst [10, 0, 0]) (Pnt (Point 2 2 2)) =
     (Some AssertionError, example_mesh\<lparr>center := Point 3 0 0\<rparr>) \<and>
   applyTransform example_mesh (Num 0) (Num 0) (Pnt (Point 2 2 2)) =
     (Some (TypeError ''object is not iterable''), example_mesh)"
proof -
  have big: "\<not> 10 < 2 * pi" using pi_less_4 by simp
  have "rotation_matrix (example_mesh\<lparr>center := Point 3 0 0\<rparr>) (Lst [10, 0, 0]) =
      (Inl AssertionError, example_mesh\<lparr>center := Point 3 0 0\<rparr>)"
    using big by (simp add: rotation_matrix_def)
  then have 1: "applyTransform example_mesh (Lst [1, 0, 0]) (Lst [10, 0, 0]) (Pnt (Point 2 2 2)) =
      (Some AssertionError, example_mesh\<lparr>center := Point 3 0 0\<rparr>)"
    using applyTransform_rotation_raises[OF shift_matrix_example] by blast
  have 2: "applyTransform example_mesh (Num 0) (Num 0) (Pnt (Point 2 2 2)) =
      (Some (TypeError ''object is not iterable''), example_mesh)"
    by (simp add: applyTransform_def shift_matrix_def unpack3_def)
  show ?thesis using 1 2 by simp
qed

section \<open>The rotation factor\<close>





section \<open>Shapes\<close>

lemma length_transpose_rect:
  "B \<noteq> [] \<Longrightarrow> list_all (\<lambda>r. length r = n) B \<Longrightarrow> length (transpose B) = n"
proof -
  have "list_all (\<lambda>r. length r = n) B \<Longrightarrow>
      foldr (\<lambda>xs. max (length xs)) B 0 = (if B = [] then 0 else n)" for B :: "'a list list"
    by (induction B) (auto simp: list_all_iff)
  then show "B \<noteq> [] \<Longrightarrow> list_all (\<lambda>r. length r = n) B \<Longrightarrow> length (transpose B) = n"
    by (simp add: length_transpose)
qed

lemma transpose_rect:
  assumes "B \<noteq> []" "list_all (\<lambda>r. length r = n) B"
  shows "transpose B = map (\<lambda>j. map (\<lambda>r. r ! j) B) [0..<n]"
proof (rule nth_equalityI)
  show "length (transpose B) = length (map (\<lambda>j. map (\<lambda>r. r ! j) B) [0..<n])"
    using assms by (simp add: length_transpose_rect)
next
  fix i assume il: "i < length (transpose B)"
  then have i: "i < n" using assms by (simp add: length_transpose_rect)
  then have "filter (\<lambda>ys. i < length ys) B = B"
    using assms(2) by (auto simp: list_all_iff filter_id_conv)
  then show "transpose B ! i = map (\<lambda>j. map (\<lambda>r. r ! j) B) [0..<n] ! i"
    using il i by (simp add: nth_transpose)
qed

lemma is_shape_transpose:
  "is_shape r c B \<Longrightarrow> 0 < r \<Longrightarrow> is_shape c r (transpose B)"
  by (auto simp: is_shape_def transpose_rect[of B c] list_all_iff)

lemma shape_is_shape: "is_shape r c M \<Longrightarrow> 0 < r \<Longrightarrow> shape M = (r, c)"
  by (cases M) (auto simp: is_shape_def shape_def)

lemma matmul_shape:
  assumes "is_shape r k A" "is_shape k c B" "0 < r" "0 < k"
  shows "\<exists>C. matmul A B = Inr C \<and> is_shape r c C"
proof -
  have B: "B \<noteq> []" "list_all (\<lambda>r. length r = c) B" using assms by (auto simp: is_shape_def)
  have "matmul A B = Inr (map (\<lambda>r. map (dot r) (transpose B)) A)"
    using assms by (simp add: matmul_def shape_is_shape)
  moreover have "is_shape r c (map (\<lambda>r. map (dot r) (transpose B)) A)"
    using assms(1) by (simp add: is_shape_def list_all_iff length_transpose_rect[OF B])
  ultimately show ?thesis by blast
qed

section \<open>The vertices setter\<close>

text \<open>
  What the setter accepts has four rows of one length. A 4\<times>N buffer whose last row is
  all ones is stored as it is; an N\<times>4 buffer (N not 4) whose last column is all ones
  is stored transposed; and a stored buffer that is not 4\<times>4 has an all-ones last row.
\<close>

lemma asmatrix_shape:
  assumes "asmatrix vs = Inr v0"
  shows "is_shape (fst (shape v0)) (snd (shape v0)) v0 \<and> 0 < fst (shape v0)"
  using assms
  by (cases vs) (auto simp: asmatrix_def np_matrix_def is_shape_def shape_def split: if_splits)

lemma vertices_setter_shape:
  assumes "vertices_setter vs = Inr v"
  shows "is_shape 4 (snd (shape v)) v"
proof -
  obtain v0 where v0: "asmatrix vs = Inr v0"
    using assms by (auto simp: vertices_setter_def split: sum.splits)
  note s0 = asmatrix_shape[OF v0]
  define v1 where "v1 = (if fst (shape v0) \<noteq> 4 then transpose v0 else v0)"
  have v1: "is_shape 4 (snd (shape v1)) v1"
  proof (cases "fst (shape v0) = 4")
    case True
    then show ?thesis using s0 by (simp add: v1_def)
  next
    case False
    then have c4: "snd (shape v0) = 4"
      using assms v0 by (auto simp: vertices_setter_def split: if_splits)
    then have "is_shape 4 (fst (shape v0)) (transpose v0)"
      using s0 is_shape_transpose by metis
    then show ?thesis using False shape_is_shape[of 4 _ "transpose v0"] by (simp add: v1_def)
  qed
  have "v = v1 \<or> (v = transpose v1 \<and> snd (shape v1) = 4)"
    using assms v0 unfolding v1_def
    by (auto simp: vertices_setter_def split: if_splits)
  then show ?thesis
  proof
    assume "v = v1" then show ?thesis using v1 by simp
  next
    assume t: "v = transpose v1 \<and> snd (shape v1) = 4"
    then have "is_shape 4 4 v" using v1 is_shape_transpose[of 4 4 v1] by simp
    then show ?thesis using shape_is_shape[of 4 4 v] by simp
  qed
qed

lemma vertices_setter_unchanged:
  assumes "is_shape 4 n M" "list_all (\<lambda>x. x = 1) (M ! 3)"
    and rp: "list_all (list_all representable) M"
  shows "vertices_setter M = Inr M"
proof -
  have "M \<noteq> []" using assms by (auto simp: is_shape_def)
  moreover have "list_all (\<lambda>r. length r = length (hd M)) M"
    using assms \<open>M \<noteq> []\<close> by (cases M) (auto simp: is_shape_def list_all_iff)
  ultimately have "asmatrix M = Inr M" using rp by (simp add: asmatrix_def np_matrix_def)
  then show ?thesis using assms shape_is_shape[OF assms(1)]
    by (simp add: vertices_setter_def)
qed

lemma vertices_setter_transposed:
  assumes "is_shape n 4 M" "0 < n" "n \<noteq> 4" "list_all (\<lambda>r. r ! 3 = 1) M"
    and rp: "list_all (list_all representable) M"
  shows "vertices_setter M = Inr (transpose M) \<and> is_shape 4 n (transpose M) \<and>
         list_all (\<lambda>x. x = 1) (transpose M ! 3)"
proof -
  have ne: "M \<noteq> []" using assms by (auto simp: is_shape_def)
  have rect: "list_all (\<lambda>r. length r = 4) M" using assms by (simp add: is_shape_def)
  then have "list_all (\<lambda>r. length r = length (hd M)) M"
    using ne by (cases M) (auto simp: list_all_iff)
  then have a: "asmatrix M = Inr M" using ne rp by (simp add: asmatrix_def np_matrix_def)
  have t: "transpose M = map (\<lambda>j. map (\<lambda>r. r ! j) M) [0..<4]"
    using transpose_rect[OF ne rect] .
  have "[0..<4] ! 3 = 3" by simp
  then have row: "transpose M ! 3 = map (\<lambda>r. r ! 3) M" by (simp add: t)
  have ones: "list_all (\<lambda>x. x = 1) (transpose M ! 3)"
    using assms(4) by (simp add: row list_all_iff)
  have sh: "is_shape 4 n (transpose M)" using is_shape_transpose[OF assms(1,2)] .
  show ?thesis
    using a sh ones shape_is_shape[OF assms(1,2)] assms(3)
    by (simp add: vertices_setter_def)
qed

lemma vertices_setter_last_row:
  assumes "vertices_setter vs = Inr v" "shape v \<noteq> (4, 4)"
  shows "list_all (\<lambda>x. x = 1) (v ! 3)"
proof -
  obtain v0 where v0: "asmatrix vs = Inr v0"
    using assms by (auto simp: vertices_setter_def split: sum.splits)
  define v1 where "v1 = (if fst (shape v0) \<noteq> 4 then transpose v0 else v0)"
  have "v = v1 \<and> list_all (\<lambda>x. x = 1) (v1 ! 3) \<or> (v = transpose v1 \<and> snd (shape v1) = 4)"
    using assms v0 unfolding v1_def
    by (auto simp: vertices_setter_def split: if_splits)
  moreover have "is_shape 4 4 v" if "v = transpose v1" "snd (shape v1) = 4"
  proof -
    have "is_shape 4 (snd (shape v1)) v1"
    proof (cases "fst (shape v0) = 4")
      case True
      then show ?thesis using asmatrix_shape[OF v0] by (simp add: v1_def)
    next
      case False
      then have "snd (shape v0) = 4"
        using assms v0 by (auto simp: vertices_setter_def split: if_splits)
      then have "is_shape 4 (fst (shape v0)) (transpose v0)"
        using asmatrix_shape[OF v0] is_shape_transpose by metis
      then show ?thesis using False shape_is_shape[of 4 _ "transpose v0"] by (simp add: v1_def)
    qed
    then show ?thesis using that is_shape_transpose[of 4 4 v1] by simp
  qed
  ultimately show ?thesis using assms(2) shape_is_shape[of 4 4 v] by auto
qed

text \<open>
  C4. The stored buffer does not always end in a row of ones. A 4\<times>4 input whose last
  row is not all ones is transposed by the second test of the setter and stored without a
  further look: when its last column is not all ones either, the stored last row is not
  all ones. Here the four points (0,0,0), (1,0,0), (0,1,0), (0,0,1) with a fourth
  coordinate 0 are accepted and stored with the last row \<open>[0, 0, 0, 0]\<close>.
\<close>

theorem vertices_setter_square_unchecked:
  "vertices_setter [[0, 0, 0, 0], [1, 0, 0, 0], [0, 1, 0, 0], [0, 0, 1, 0]] =
     Inr [[0, 1, 0, 0], [0, 0, 1, 0], [0, 0, 0, 1], [0, 0, 0, 0]] \<and>
   \<not> list_all (\<lambda>x. x = 1) ([[0, 1, 0, 0], [0, 0, 1, 0], [0, 0, 0, 1], [0, 0, 0, 0 :: real]] ! 3)"
  by (simp add: vertices_setter_def asmatrix_def np_matrix_def representable_def shape_def)

section \<open>The projection\<close>

lemma focal_inv_camera:
  "matmul focal [[sqrt 2 / 2, - (sqrt 2 / 2), 0, - (sqrt 2 / 2)],
                 [sqrt 2 / 2, sqrt 2 / 2, 0, - (sqrt 2 / 2)],
                 [0, 0, 1, 0],
                 [0, 0, 0, 1]] =
     Inr [[5 * sqrt 2 / 2, - (5 * sqrt 2 / 2), 0, - (5 * sqrt 2 / 2)],
          [5 * sqrt 2 / 2, 5 * sqrt 2 / 2, 0, - (5 * sqrt 2 / 2)],
          [0, 0, 1, 0]]"
  by (simp add: matmul_def shape_def focal_def dot_def)

lemma shape3_rows: "is_shape 3 n M \<Longrightarrow> \<exists>r0 r1 r2. M = [r0, r1, r2] \<and> length r0 = n \<and> length r1 = n \<and> length r2 = n"
  by (auto simp: is_shape_def length_Suc_conv numeral_3_eq_3)

lemma to2D_shape:
  assumes "is_shape 4 4 (transform_matrix m)" "is_shape 4 n (vertices m)"
  shows "\<exists>ci fc ft mp. inv_matrix camera = Inr ci \<and> matmul ci camera = Inr (identity 4) \<and>
           matmul focal ci = Inr fc \<and> matmul fc (transform_matrix m) = Inr ft \<and>
           matmul ft (vertices m) = Inr mp \<and> is_shape 3 n mp \<and>
           to2D m = Inr [map2 np_divide (mp ! 0) (mp ! 2), map2 np_divide (mp ! 1) (mp ! 2)] \<and>
           is_shape 2 n [map2 np_divide (mp ! 0) (mp ! 2), map2 np_divide (mp ! 1) (mp ! 2)]"
proof -
  let ?ci = "[[sqrt 2 / 2, - (sqrt 2 / 2), 0, - (sqrt 2 / 2)],
              [sqrt 2 / 2, sqrt 2 / 2, 0, - (sqrt 2 / 2)],
              [0, 0, 1, 0],
              [0, 0, 0, 1 :: real]]"
  let ?fc = "[[5 * sqrt 2 / 2, - (5 * sqrt 2 / 2), 0, - (5 * sqrt 2 / 2)],
              [5 * sqrt 2 / 2, 5 * sqrt 2 / 2, 0, - (5 * sqrt 2 / 2)],
              [0, 0, 1, 0 :: real]]"
  have fc: "is_shape 3 4 ?fc" by (simp add: is_shape_def)
  obtain ft where ft: "matmul ?fc (transform_matrix m) = Inr ft" "is_shape 3 4 ft"
    using matmul_shape[OF fc assms(1)] by auto
  obtain mp where mp: "matmul ft (vertices m) = Inr mp" "is_shape 3 n mp"
    using matmul_shape[OF ft(2) assms(2)] by auto
  obtain r0 r1 r2 where rows: "mp = [r0, r1, r2]" "length r0 = n" "length r1 = n" "length r2 = n"
    using shape3_rows[OF mp(2)] by blast
  have "to2D m = Inr [map2 np_divide (mp ! 0) (mp ! 2), map2 np_divide (mp ! 1) (mp ! 2)]"
    by (simp add: to2D_def inv_camera focal_inv_camera then_matmul_def ft mp rows)
  moreover have "is_shape 2 n [map2 np_divide (mp ! 0) (mp ! 2), map2 np_divide (mp ! 1) (mp ! 2)]"
    by (simp add: is_shape_def rows)
  ultimately show ?thesis
    using inv_camera inv_camera_is_inverse focal_inv_camera ft mp by blast
qed


lemma shift_matrix_built:
  assumes "shift_matrix m c = (Inr sh, m1)"
  shows "\<exists>x y z. unpack3 c = Inr (x, y, z) \<and>
           sh = [[1, 0, 0, x], [0, 1, 0, y], [0, 0, 1, z], [0, 0, 0, 1]] \<and>
           m1 = m\<lparr>center := point_iadd (center m) (x, y, z)\<rparr>"
  using assms by (auto simp: shift_matrix_eq split: sum.splits prod.splits if_splits)

lemma rotation_matrix_built:
  assumes "rotation_matrix m a = (Inr ro, m1)"
  shows "\<exists>alfa beta gamma. unpack3 a = Inr (alfa, beta, gamma) \<and>
           ro = [[cos beta * cos gamma, sin alfa * sin beta * cos gamma - cos alfa * sin gamma,
                    cos alfa * sin beta * cos gamma + sin alfa * sin gamma, 0],
                 [cos beta * sin gamma, sin alfa * sin beta * sin gamma + cos alfa * cos gamma,
                    cos alfa * sin beta * sin alfa - sin alfa * cos gamma, 0],
                 [- sin beta, sin alfa * cos beta, cos alfa * cos beta, 0],
                 [0, 0, 0, 1]] \<and>
           m1 = m\<lparr>angle := point_iadd (angle m) (alfa, beta, gamma)\<rparr>"
  using assms
  by (auto simp: rotation_matrix_def Let_def split: sum.splits prod.splits if_splits)

lemma product_shape:
  assumes "is_shape 4 4 sc" "is_shape 4 4 ro" "is_shape 4 4 sh" "is_shape 4 4 old"
  shows "\<exists>t. then_matmul (then_matmul (matmul sc ro) sh) old = Inr t \<and> is_shape 4 4 t"
proof -
  obtain a where a: "matmul sc ro = Inr a" "is_shape 4 4 a"
    using matmul_shape[OF assms(1,2)] by auto
  obtain b where b: "matmul a sh = Inr b" "is_shape 4 4 b"
    using matmul_shape[OF a(2) assms(3)] by auto
  obtain t where t: "matmul b old = Inr t" "is_shape 4 4 t"
    using matmul_shape[OF b(2) assms(4)] by auto
  show ?thesis using a b t by (simp add: then_matmul_def)
qed

lemma applyTransform_built:
  assumes sh: "shift_matrix m c = (Inr sh, m1)"
    and ro: "rotation_matrix m1 a = (Inr ro, m2)"
    and sc: "scale_matrix m2 s = (Inr sc, m3)"
    and wf: "is_shape 4 4 (transform_matrix m)" "is_shape 4 n (vertices m)"
  shows "\<exists>t p. then_matmul (then_matmul (matmul sc ro) sh) (transform_matrix m) = Inr t \<and>
           is_shape 4 4 t \<and> to2D (m3\<lparr>transform_matrix := t\<rparr>) = Inr p \<and> is_shape 2 n p \<and>
           applyTransform m c a s = (None, m3\<lparr>transform_matrix := t, vertices2D := p\<rparr>)"
proof -
  have s_sh: "is_shape 4 4 sh" using shift_matrix_built[OF sh] by (auto simp: is_shape_def)
  have s_ro: "is_shape 4 4 ro" using rotation_matrix_built[OF ro] by (auto simp: is_shape_def)
  have s_sc: "is_shape 4 4 sc" using scale_matrix_built[OF sc] by (auto simp: is_shape_def)
  obtain p1 where f1: "m1 = m\<lparr>center := p1\<rparr>" using shift_matrix_frame(1)[OF sh] by blast
  obtain p2 where f2: "m2 = m1\<lparr>angle := p2\<rparr>" using rotation_matrix_frame(1)[OF ro] by blast
  obtain p3 where f3: "m3 = m2\<lparr>scale := p3\<rparr>" using scale_matrix_frame(1)[OF sc] by blast
  have m3: "transform_matrix m3 = transform_matrix m" "vertices m3 = vertices m"
    by (simp_all add: f1 f2 f3)
  obtain t where t: "then_matmul (then_matmul (matmul sc ro) sh) (transform_matrix m) = Inr t"
      "is_shape 4 4 t"
    using product_shape[OF s_sc s_ro s_sh wf(1)] by blast
  have "\<exists>p. to2D (m3\<lparr>transform_matrix := t\<rparr>) = Inr p \<and> is_shape 2 n p"
    using to2D_shape[of "m3\<lparr>transform_matrix := t\<rparr>" n] t(2) wf(2) m3 by auto
  then obtain p where p: "to2D (m3\<lparr>transform_matrix := t\<rparr>) = Inr p" "is_shape 2 n p" by blast
  have "applyTransform m c a s = (None, m3\<lparr>transform_matrix := t, vertices2D := p\<rparr>)"
    using sh ro sc t(1) p(1) m3 by (simp add: applyTransform_def Let_def)
  then show ?thesis using t p by blast
qed

lemma applyTransform_returns:
  assumes "applyTransform m c a s = (None, m')"
  shows "to2D m' = Inr (vertices2D m')"
proof (cases rule: applyTransform_cases[of m c a s])
  case (built sh m1 ro m2 sc m3)
  then show ?thesis using assms
    by (auto simp: applyTransform_def Let_def split: sum.splits)
qed (use assms in auto)

lemma to2D_same:
  "transform_matrix m' = transform_matrix m \<Longrightarrow> vertices m' = vertices m \<Longrightarrow> to2D m' = to2D m"
  by (simp add: to2D_def cong: sum.case_cong)


lemma Mesh_init_well_formed:
  assumes "Mesh_init vs es c a s col = Inr m0"
  shows "well_formed m0"
proof -
  obtain v pc pa ps m1 where v: "vertices_setter vs = Inr v"
    and ap: "applyTransform \<lparr>vertices = v, edges = es, center = pc, angle = pa, scale = ps,
                  transform_matrix = identity 4, transform_matrix_backup = [],
                  show_flag = False, color = [], vertices2D = []\<rparr> c a s = (None, m1)"
    and m0: "m0 = m1\<lparr>transform_matrix_backup := transform_matrix m1,
                     show_flag := True, color := col\<rparr>"
    using assms by (auto simp: Mesh_init_def split: sum.splits prod.splits option.splits)
  let ?m = "\<lparr>vertices = v, edges = es, center = pc, angle = pa, scale = ps,
                  transform_matrix = identity 4, transform_matrix_backup = [],
                  show_flag = False, color = [], vertices2D = []\<rparr>"
  have wf: "is_shape 4 4 (transform_matrix ?m)" "is_shape 4 (snd (shape v)) (vertices ?m)"
    using vertices_setter_shape[OF v] by (simp_all add: identity_4 is_shape_def)
  have "is_shape 4 4 (transform_matrix m1)"
  proof (cases rule: applyTransform_cases[of ?m c a s])
    case (built sh m1' ro m2 sc m3)
    then show ?thesis using applyTransform_built[OF built wf] ap by auto
  qed (use ap in auto)
  moreover have "vertices m1 = v" using applyTransform_frame(1)[OF ap] by simp
  ultimately show ?thesis using m0 vertices_setter_shape[OF v] by (simp add: well_formed_def projectable_def)
qed

lemma applyTransform_well_formed:
  assumes "well_formed m"
  shows "well_formed (snd (applyTransform m c a s))"
proof -
  obtain r m' where ap: "applyTransform m c a s = (r, m')" by (cases "applyTransform m c a s")
  note fr = applyTransform_frame[OF ap]
  have wf: "is_shape 4 4 (transform_matrix m)" "is_shape 4 (snd (shape (vertices m))) (vertices m)"
    using assms by (simp_all add: well_formed_def projectable_def)
  have "is_shape 4 4 (transform_matrix m')"
  proof (cases rule: applyTransform_cases[of m c a s])
    case (shift e m1)
    then show ?thesis using ap wf shift_matrix_transform by (metis prod.inject)
  next
    case (rotation sh m1 e m2)
    then show ?thesis using ap wf shift_matrix_transform rotation_matrix_transform
      by (metis prod.inject)
  next
    case (scale sh m1 ro m2 e m3)
    then show ?thesis using ap wf shift_matrix_transform rotation_matrix_transform
        scale_matrix_transform by (metis prod.inject)
  next
    case (built sh m1 ro m2 sc m3)
    then show ?thesis using applyTransform_built[OF built wf] ap by auto
  qed
  then show ?thesis using assms fr ap by (simp add: well_formed_def projectable_def)
qed

lemma apply_calls_well_formed:
  "well_formed m \<Longrightarrow> well_formed (apply_calls m calls)"
proof (induction calls arbitrary: m)
  case Nil
  then show ?case by simp
next
  case (Cons call calls)
  obtain c a s where "call = (c, a, s)" by (cases call)
  then show ?case using Cons applyTransform_well_formed by simp
qed

lemma reset_well_formed: "well_formed m \<Longrightarrow> well_formed (reset m)"
  by (simp add: well_formed_def projectable_def reset_def)

lemma well_formed_example: "well_formed example_mesh"
  by (simp add: well_formed_def projectable_def is_shape_def shape_def example_mesh_def)

lemma Mesh_init_projected:
  assumes "Mesh_init vs es c a s col = Inr m0"
  shows "to2D m0 = Inr (vertices2D m0)"
proof -
  obtain m m1 where ap: "applyTransform m c a s = (None, m1)"
    and m0: "m0 = m1\<lparr>transform_matrix_backup := transform_matrix m1,
                     show_flag := True, color := col\<rparr>"
    using assms by (auto simp: Mesh_init_def split: sum.splits prod.splits option.splits)
  have "to2D m0 = to2D m1" by (rule to2D_same) (simp_all add: m0)
  then show ?thesis using applyTransform_returns[OF ap] m0 by simp
qed


lemma Mesh_init_call_projectable:
  assumes "vertices_setter vs = Inr v"
  shows "projectable \<lparr>vertices = v, edges = es, center = pc, angle = pa, scale = ps,
           transform_matrix = identity 4, transform_matrix_backup = bk,
           show_flag = sf, color = col, vertices2D = p\<rparr>"
  using vertices_setter_shape[OF assms] by (simp add: projectable_def identity_4 is_shape_def)






section \<open>The composed transform\<close>

text \<open>
  When the three factors are built, \<open>applyTransform\<close> stores the product
  \<open>scale \<cdot> rotation \<cdot> shift \<cdot> old\<close> (lemma \<open>applyTransform_built\<close>), with the
  translation by the center (lemma \<open>shift_matrix_built\<close>) and the diagonal scale (lemma
  \<open>scale_matrix_built\<close>). The rotation factor is the reference rotation in every entry
  but one:
\<close>

lemma reference_rotation_eq:
  "reference_rotation alfa beta gamma =
     Inr [[cos beta * cos gamma, sin alfa * sin beta * cos gamma - cos alfa * sin gamma,
             cos alfa * sin beta * cos gamma + sin alfa * sin gamma, 0],
          [cos beta * sin gamma, sin alfa * sin beta * sin gamma + cos alfa * cos gamma,
             cos alfa * sin beta * sin gamma - sin alfa * cos gamma, 0],
          [- sin beta, sin alfa * cos beta, cos alfa * cos beta, 0],
          [0, 0, 0, 1]]"
  by (simp add: reference_rotation_def Rx_def Ry_def Rz_def matmul_def then_matmul_def
      shape_def dot_def algebra_simps)

lemma rotation_matrix_vs_reference:
  assumes "rotation_matrix m (Lst [alfa, beta, gamma]) = (Inr ro, m1)"
    and "reference_rotation alfa beta gamma = Inr rf"
  shows "ro = rf[1 := (rf ! 1)[2 := cos alfa * sin beta * sin alfa - sin alfa * cos gamma]]"
  using rotation_matrix_built[OF assms(1)] assms(2)
  by (auto simp: reference_rotation_eq unpack3_def)

text \<open>
  C2. The rotation factor is not the rotation of the angle. Row 1, column 2 of the
  source's matrix is \<open>c_a*s_b*s_a - s_a*c_c\<close> where the rotation has
  \<open>c_a*s_b*s_c - s_a*c_c\<close>. At the angle \<open>(0, \<pi>/2, \<pi>/2)\<close> the factor has a row of
  zeros and determinant 0, where the reference rotation has the row \<open>[0, 0, 1, 0]\<close>;
  the transform \<open>applyTransform\<close> then stores is singular.
\<close>

theorem rotation_matrix_not_a_rotation:
  "fst (rotation_matrix m (Lst [0, pi / 2, pi / 2])) =
     Inr [[0, - 1, 0, 0], [0, 0, 0, 0], [- 1, 0, 0, 0], [0, 0, 0, 1]] \<and>
   det [[0, - 1, 0, 0], [0, 0, 0, 0], [- 1, 0, 0, 0], [0, 0, 0, 1]] = 0 \<and>
   reference_rotation 0 (pi / 2) (pi / 2) =
     Inr [[0, - 1, 0, 0], [0, 0, 1, 0], [- 1, 0, 0, 0], [0, 0, 0, 1]] \<and>
   transform_matrix (snd (applyTransform example_mesh
       (Lst [0, 0, 0]) (Lst [0, pi / 2, pi / 2]) (Lst [1, 1, 1]))) =
     [[0, - 1, 0, 0], [0, 0, 0, 0], [- 1, 0, 0, - 1], [0, 0, 0, 1]]"
  by (simp add: reference_rotation_eq applyTransform_def shift_matrix_def np_matrix_def representable_def rotation_matrix_def
      scale_matrix_def np_matrix_def representable_def float_mul_def unpack3_def matmul_def then_matmul_def dot_def to2D_def inv_camera
      focal_def Let_def shape_def np_divide_def example_mesh_def Point_new_def)

end
